theory Spec2Isabelle
  imports Main
begin

section \<open>The web test launcher (go/launcher/launcher.go)\<close>

text \<open>
  The launcher reads a metadata file, picks an environment provider by name, sets the
  environment up, starts a proxy in front of it, runs the test as a child process and
  returns a status. Everything it calls outside launcher.go (runfile lookup, metadata
  parsing, the providers, the environment's methods, the proxy, temp-dir creation, the
  child process) is a field of the record \<open>world\<close>; what \<open>Run\<close> does with the
  results is translated line by line. What \<open>Run\<close> causes to happen is written to a
  list of events, in program order.
\<close>

subsection \<open>Go values\<close>

text \<open>
  A non-nil Go \<open>error\<close>, by dynamic type: \<open>*exec.ExitError\<close>, whose \<open>Sys()\<close> is a
  \<open>syscall.WaitStatus\<close> (carrying the number its \<open>ExitStatus()\<close> returns) or something
  else, or any other error with its message. The nil error is \<open>None\<close>.
\<close>

datatype sys = WaitStatus int | OtherSys

datatype error = ExitError sys | ErrorString string

text \<open>Arguments of a \<open>log.Printf\<close> call.\<close>

datatype arg = ArgError error | ArgString string

record metadata =
  Environment :: string

datatype diagnostics = NoOP

text \<open>
  An \<open>environment.Env\<close> is an object known by its identity; its methods \<open>SetUp\<close> and
  \<open>TearDown\<close> are fields of the world. The nil interface value is \<open>None\<close>.
\<close>

datatype environment_Env = EnvObject string

type_synonym envProvider =
  "metadata \<Rightarrow> diagnostics \<Rightarrow> environment_Env option \<times> error option"

record proxy =
  Address :: string

datatype stream = os_Stdin | os_Stdout | os_Stderr

record Cmd =
  Path :: string
  Args :: "string list"
  Env :: "string \<rightharpoonup> string"
  Stdout :: stream
  Stderr :: stream
  Stdin :: stream

subsection \<open>Events and outcomes\<close>

datatype event =
    LogPrintf string "arg list"
  | CallProvider envProvider
  | EnvSetUp environment_Env
  | EnvTearDown environment_Env
  | ProxyStart proxy
  | ChildStarted Cmd
  | ChildTerminated

text \<open>
  A call of \<open>Run\<close> returns an int, panics (a method call on a nil interface value), or
  never returns (it waits for a child that never terminates).
\<close>

datatype outcome = Returned int | Panicked | Blocked

fun isTearDown :: "event \<Rightarrow> bool" where
  "isTearDown (EnvTearDown e) = True"
| "isTearDown _ = False"

fun isChildStarted :: "event \<Rightarrow> bool" where
  "isChildStarted (ChildStarted c) = True"
| "isChildStarted _ = False"

fun isLogPrintf :: "event \<Rightarrow> bool" where
  "isLogPrintf (LogPrintf f as) = True"
| "isLogPrintf _ = False"

subsection \<open>The child process and \<open>exec.Cmd.Run\<close>\<close>

text \<open>
  What the operating system does with the command: it cannot be started, it runs and
  exits with a code, it is killed by a signal, or it never terminates.
\<close>

datatype child = StartFails error | Exits nat | Killed | Hangs

datatype 'a blocking = Returns 'a | NeverReturns

text \<open>
  \<open>exec.Cmd.Run\<close> of the Go library starts the command and waits for it: nil when it
  exits with status 0, an \<open>*exec.ExitError\<close> when it started and did not complete
  successfully (\<open>ExitStatus()\<close> is the exit code, or -1 when it was signalled), another
  error when it did not start.
\<close>

fun Cmd_Run :: "Cmd \<Rightarrow> child \<Rightarrow> event list \<times> error option blocking" where
  "Cmd_Run c (StartFails e) = ([], Returns (Some e))"
| "Cmd_Run c (Exits k) =
     ([ChildStarted c, ChildTerminated],
      Returns (if k = 0 then None else Some (ExitError (WaitStatus (int k)))))"
| "Cmd_Run c Killed =
     ([ChildStarted c, ChildTerminated], Returns (Some (ExitError (WaitStatus (- 1)))))"
| "Cmd_Run c Hangs = ([ChildStarted c], NeverReturns)"

subsection \<open>The world\<close>

text \<open>
  The flags and the provider table are the package-level variables of launcher.go; the
  other fields are the functions it imports.
\<close>

record world =
  test :: string
  metadataFileFlag :: string
  flag_Args :: "string list"
  envProviders :: "string \<rightharpoonup> envProvider"
  bazel_Runfile :: "string \<Rightarrow> string \<times> error option"
  metadata_FromFile :: "string \<Rightarrow> metadata \<times> error option"
  SetUp :: "environment_Env \<Rightarrow> error option"
  TearDown :: "environment_Env \<Rightarrow> error option"
  proxy_New :: "environment_Env \<Rightarrow> metadata \<Rightarrow> diagnostics \<Rightarrow> proxy \<times> error option"
  Start :: "proxy \<Rightarrow> error option"
  bazel_NewTmpDir :: "string \<Rightarrow> string \<times> error option"
  bazel_TestTmpDir :: string
  os_Environ :: "string \<rightharpoonup> string"
  exec_child :: "Cmd \<Rightarrow> child"

subsection \<open>The provider table\<close>

text \<open>\<open>envProviders[name] = p\<close>\<close>

definition RegisterEnvProviderFunc :: "string \<Rightarrow> envProvider \<Rightarrow> world \<Rightarrow> world" where
  "RegisterEnvProviderFunc name p w = w\<lparr>envProviders := (envProviders w)(name \<mapsto> p)\<rparr>"

text \<open>
  \<open>buildEnv\<close> looks the metadata's environment name up; the second component lists the
  provider calls it makes.
\<close>

definition buildEnv ::
  "world \<Rightarrow> metadata \<Rightarrow> diagnostics \<Rightarrow> (environment_Env option \<times> error option) \<times> event list" where
  "buildEnv w m d =
     (case envProviders w (Environment m) of
        None \<Rightarrow> ((None, Some (ErrorString (''unknown environment: '' @ Environment m))), [])
      | Some p \<Rightarrow> (p m d, [CallProvider p]))"

text \<open>
  A sequence of calls of \<open>RegisterEnvProviderFunc\<close>, first to last (init functions of
  the provider packages make such calls before \<open>main\<close> runs).
\<close>

fun registerAll :: "(string \<times> envProvider) list \<Rightarrow> world \<Rightarrow> world" where
  "registerAll [] w = w"
| "registerAll ((name, p) # rest) w = registerAll rest (RegisterEnvProviderFunc name p w)"

subsection \<open>Merging the child's environment variables\<close>

text \<open>
  Modelled from the spec: \<open>cmdhelper.BulkUpdateEnv\<close> (go/launcher/cmdhelper) is not among
  the sources. The spec has the overlay's key/value pairs merged on top of the inherited
  process environment, the overlay winning on a key collision.
\<close>

definition BulkUpdateEnv :: "(string \<rightharpoonup> string) \<Rightarrow> (string \<rightharpoonup> string) \<Rightarrow> (string \<rightharpoonup> string)" where
  "BulkUpdateEnv env update = env ++ update"

subsection \<open>\<open>Run\<close>\<close>

text \<open>Events that happen before the rest of the run.\<close>

definition emit :: "event list \<Rightarrow> event list \<times> outcome \<Rightarrow> event list \<times> outcome" where
  "emit es r = (es @ fst r, snd r)"

text \<open>
  A deferred call runs when the function body returns or panics, after the returned
  value is fixed; it does not run while the body is blocked.
\<close>

definition deferred :: "event list \<Rightarrow> event list \<times> outcome \<Rightarrow> event list \<times> outcome" where
  "deferred ds r = (case snd r of Blocked \<Rightarrow> r | _ \<Rightarrow> (fst r @ ds, snd r))"

text \<open>
  Lines 127 to 132: the type assertions on an error value and the status they yield.
\<close>

definition exitStatusOf :: "error option \<Rightarrow> int" where
  "exitStatusOf err =
     (case err of
        Some (ExitError ee) \<Rightarrow> (case ee of WaitStatus ws \<Rightarrow> ws | OtherSys \<Rightarrow> 1)
      | _ \<Rightarrow> 1)"

text \<open>
  Lines 114 to 123: the command for the test (\<open>exec.Command\<close> puts the name in front
  of the arguments), with the four variables laid over the launcher's own environment
  and the launcher's standard streams.
\<close>

definition newTestCmd :: "world \<Rightarrow> proxy \<Rightarrow> string \<Rightarrow> string \<Rightarrow> Cmd" where
  "newTestCmd w p testExe tmpDir =
     \<lparr>Path = testExe, Args = testExe # flag_Args w,
      Env = BulkUpdateEnv (os_Environ w)
        [''WEB_TEST_WEBDRIVER_SERVER'' \<mapsto> ''http://'' @ Address p @ ''/wd/hub'',
         ''TEST_TMPDIR'' \<mapsto> tmpDir,
         ''WEB_TEST_TMPDIR'' \<mapsto> bazel_TestTmpDir w,
         ''WEB_TEST_TARGET'' \<mapsto> test w],
      Stdout = os_Stdout, Stderr = os_Stderr, Stdin = os_Stdin\<rparr>"

text \<open>
  Lines 84 to 88: the deferred closure. It calls \<open>TearDown\<close> and logs its error, if any;
  it has no access to the value \<open>Run\<close> returns.
\<close>

definition tearDownDeferred :: "world \<Rightarrow> environment_Env \<Rightarrow> event list" where
  "tearDownDeferred w env =
     EnvTearDown env #
     (case TearDown w env of
        Some e \<Rightarrow> [LogPrintf ''Error tearing down environment: %v'' [ArgError e]]
      | None \<Rightarrow> [])"

text \<open>
  Lines 90 to 134: the part of \<open>Run\<close> that follows the \<open>defer\<close> statement, for the
  metadata \<open>m\<close> and the environment \<open>env\<close> that is set up. The variable \<open>err\<close> read at
  line 127 is the one assigned last at line 108.
\<close>

definition Run_after_defer ::
  "world \<Rightarrow> diagnostics \<Rightarrow> metadata \<Rightarrow> environment_Env \<Rightarrow> event list \<times> outcome" where
  "Run_after_defer w d m env =
    (case proxy_New w env m d of (p, err) \<Rightarrow>
     (case err of
        Some e \<Rightarrow> ([LogPrintf ''Error creating proxy: %v'' [ArgError e]], Returned 127)
      | None \<Rightarrow> emit [ProxyStart p]
     (case Start w p of
        Some e \<Rightarrow> ([LogPrintf ''Error starting proxy: %v'' [ArgError e]], Returned 127)
      | None \<Rightarrow>
     (case bazel_Runfile w (test w) of (testExe, err) \<Rightarrow>
     (case err of
        Some e \<Rightarrow> ([LogPrintf ''unable to find %s'' [ArgString (test w)]], Returned 127)
      | None \<Rightarrow>
     (case bazel_NewTmpDir w ''test'' of (tmpDir, err) \<Rightarrow>
     (case err of
        Some e \<Rightarrow>
          ([LogPrintf ''Unable to create new temp dir for test: %v'' [ArgError e]],
           Returned (- 1))
      | None \<Rightarrow>
     (let testCmd = newTestCmd w p testExe tmpDir in
     (case Cmd_Run testCmd (exec_child w testCmd) of
        (evs, NeverReturns) \<Rightarrow> (evs, Blocked)
      | (evs, Returns status) \<Rightarrow> emit evs
     (case status of
        Some s \<Rightarrow> ([LogPrintf ''test failed %v'' [ArgError s]], Returned (exitStatusOf err))
      | None \<Rightarrow> ([], Returned 0)))))))))))"

text \<open>Lines 60 to 88, and the deferred call around the rest.\<close>

definition Run :: "world \<Rightarrow> diagnostics \<Rightarrow> event list \<times> outcome" where
  "Run w d =
    (case bazel_Runfile w (metadataFileFlag w) of (metadataFile, err) \<Rightarrow>
     (case err of
        Some e \<Rightarrow> ([LogPrintf ''Error locating metadata file: %v'' [ArgError e]], Returned 127)
      | None \<Rightarrow>
     (case metadata_FromFile w metadataFile of (m, err) \<Rightarrow>
     (case err of
        Some e \<Rightarrow> ([LogPrintf ''Error reading metadata file: %v'' [ArgError e]], Returned 127)
      | None \<Rightarrow>
     (case buildEnv w m d of ((env, err), calls) \<Rightarrow> emit calls
     (case err of
        Some e \<Rightarrow> ([LogPrintf ''Error building environment: %v'' [ArgError e]], Returned 127)
      | None \<Rightarrow>
     (case env of
        None \<Rightarrow> ([], Panicked)
      | Some env \<Rightarrow> emit [EnvSetUp env]
     (case SetUp w env of
        Some e \<Rightarrow> ([LogPrintf ''Error setting up environment: %v'' [ArgError e]], Returned 127)
      | None \<Rightarrow> deferred (tearDownDeferred w env) (Run_after_defer w d m env)))))))))"

subsection \<open>Example worlds\<close>

text \<open>
  One provider, registered as "local", whose environment sets up and tears down without
  error; the proxy listens on 127.0.0.1:9999; the test runs as the given child.
\<close>

definition localProvider :: envProvider where
  "localProvider m d = (Some (EnvObject ''local''), None)"

definition failingProvider :: envProvider where
  "failingProvider m d = (None, Some (ErrorString ''no browser''))"

definition emptyWorld :: "child \<Rightarrow> world" where
  "emptyWorld ch =
     \<lparr>test = ''pkg/some_test'', metadataFileFlag = ''pkg/some_test.gen.json'',
      flag_Args = [''--verbose''],
      envProviders = Map.empty,
      bazel_Runfile = (\<lambda>f. (''/runfiles/'' @ f, None)),
      metadata_FromFile = (\<lambda>f. (\<lparr>Environment = ''local''\<rparr>, None)),
      SetUp = (\<lambda>e. None),
      TearDown = (\<lambda>e. None),
      proxy_New = (\<lambda>e m d. (\<lparr>Address = ''127.0.0.1:9999''\<rparr>, None)),
      Start = (\<lambda>p. None),
      bazel_NewTmpDir = (\<lambda>prefix. (''/tmp/test0'', None)),
      bazel_TestTmpDir = ''/tmp/harness'',
      os_Environ = [''HOME'' \<mapsto> ''/root'', ''TEST_TMPDIR'' \<mapsto> ''/tmp/harness''],
      exec_child = (\<lambda>c. ch)\<rparr>"

definition localWorld :: "child \<Rightarrow> world" where
  "localWorld ch = RegisterEnvProviderFunc ''local'' localProvider (emptyWorld ch)"

text \<open>The same world, except that the proxy does not start and the teardown fails.\<close>

definition proxyDownWorld :: world where
  "proxyDownWorld =
     (localWorld (Exits 0))
       \<lparr>TearDown := (\<lambda>e. Some (ErrorString ''browser still running'')),
        Start := (\<lambda>p. Some (ErrorString ''address already in use''))\<rparr>"

text \<open>The same world, except that setting the environment up fails.\<close>

definition setUpFailsWorld :: world where
  "setUpFailsWorld =
     (localWorld (Exits 0))\<lparr>SetUp := (\<lambda>e. Some (ErrorString ''no display''))\<rparr>"

text \<open>The same world, except that the temporary directory cannot be created.\<close>

definition noTmpDirWorld :: world where
  "noTmpDirWorld =
     (localWorld (Exits 0))
       \<lparr>bazel_NewTmpDir := (\<lambda>prefix. ([], Some (ErrorString ''no space left on device'')))\<rparr>"

section \<open>The provider table\<close>

lemma envProviders_Register:
  "envProviders (RegisterEnvProviderFunc name p w) = (envProviders w)(name \<mapsto> p)"
  by (simp add: RegisterEnvProviderFunc_def)

lemma envProviders_registerAll_other:
  "name \<notin> fst ` set later \<Longrightarrow> envProviders (registerAll later w) name = envProviders w name"
proof (induction later arbitrary: w)
  case Nil
  then show ?case by simp
next
  case (Cons r later)
  obtain n p where r: "r = (n, p)" by (cases r)
  from Cons.prems r have "n \<noteq> name" and "name \<notin> fst ` set later" by auto
  with Cons.IH [of "RegisterEnvProviderFunc n p w"] r show ?case
    by (simp add: envProviders_Register)
qed

text \<open>
  C5. A name registered with provider F and not registered again later resolves to F:
  for metadata naming it, \<open>buildEnv\<close> calls F, and nothing else, and returns the pair F
  returns.
\<close>

theorem buildEnv_registered:
  assumes "Environment m \<notin> fst ` set later"
  shows "buildEnv (registerAll later (RegisterEnvProviderFunc (Environment m) F w)) m d
           = (F m d, [CallProvider F])"
  using envProviders_registerAll_other [OF assms, of "RegisterEnvProviderFunc (Environment m) F w"]
  by (simp add: buildEnv_def envProviders_Register)

theorem buildEnv_registered_witness:
  "Environment \<lparr>Environment = ''local''\<rparr> \<notin> fst ` set [(''remote'', failingProvider)]
   \<and> buildEnv (registerAll [(''remote'', failingProvider)]
                 (RegisterEnvProviderFunc ''local'' localProvider (emptyWorld (Exits 0))))
        \<lparr>Environment = ''local''\<rparr> NoOP
     = ((Some (EnvObject ''local''), None), [CallProvider localProvider])"
  using buildEnv_registered [of "\<lparr>Environment = ''local''\<rparr>" "[(''remote'', failingProvider)]"
      localProvider "emptyWorld (Exits 0)" NoOP]
  by (simp add: localProvider_def)

text \<open>
  C6. For metadata whose environment name is not a key of the provider table,
  \<open>buildEnv\<close> returns the nil environment and the error "unknown environment: <name>",
  and calls no provider.
\<close>

theorem buildEnv_unknown:
  assumes "Environment m \<notin> dom (envProviders w)"
  shows "buildEnv w m d
           = ((None, Some (ErrorString (''unknown environment: '' @ Environment m))), [])"
  using assms by (simp add: buildEnv_def domIff)

theorem buildEnv_unknown_witness:
  "Environment \<lparr>Environment = ''missing''\<rparr> \<notin> dom (envProviders (localWorld (Exits 0)))
   \<and> buildEnv (localWorld (Exits 0)) \<lparr>Environment = ''missing''\<rparr> NoOP
     = ((None, Some (ErrorString ''unknown environment: missing'')), [])"
  using buildEnv_unknown [of "\<lparr>Environment = ''missing''\<rparr>" "localWorld (Exits 0)" NoOP]
  by (simp add: localWorld_def emptyWorld_def envProviders_Register)

text \<open>
  C7. Registration is last-write-wins: after F1 and then F2 are registered under one
  name, the table is the one that registering F2 alone gives, and resolving metadata
  with that name calls F2 (and only F2) and returns what F2 returns.
\<close>

theorem Register_last_write_wins:
  "RegisterEnvProviderFunc name F2 (RegisterEnvProviderFunc name F1 w)
     = RegisterEnvProviderFunc name F2 w
   \<and> envProviders (RegisterEnvProviderFunc name F2 (RegisterEnvProviderFunc name F1 w)) name
     = Some F2
   \<and> buildEnv (RegisterEnvProviderFunc name F2 (RegisterEnvProviderFunc name F1 w))
       (m\<lparr>Environment := name\<rparr>) d
     = (F2 (m\<lparr>Environment := name\<rparr>) d, [CallProvider F2])"
  by (simp add: RegisterEnvProviderFunc_def buildEnv_def)

section \<open>Events and outcomes of \<open>Run\<close>\<close>

lemma snd_emit: "snd (emit es r) = snd r"
  by (simp add: emit_def)

lemma fst_emit: "fst (emit es r) = es @ fst r"
  by (simp add: emit_def)

lemma snd_deferred: "snd (deferred ds r) = snd r"
  by (simp add: deferred_def split: outcome.splits)

lemma fst_deferred: "fst (deferred ds r) = (if snd r = Blocked then fst r else fst r @ ds)"
  by (simp add: deferred_def split: outcome.splits)

lemma buildEnv_calls:
  "snd (buildEnv w m d) = [] \<or> (\<exists>p. snd (buildEnv w m d) = [CallProvider p])"
  by (simp add: buildEnv_def split: option.splits)

lemma buildEnv_TearDown: "buildEnv (w\<lparr>TearDown := t\<rparr>) = buildEnv w"
  by (simp add: buildEnv_def fun_eq_iff)

text \<open>Once \<open>SetUp\<close> has returned nil, \<open>Run\<close> is its remaining part under the deferred call.\<close>

lemma Run_env_up:
  assumes "bazel_Runfile w (metadataFileFlag w) = (metadataFile, None)"
    and "metadata_FromFile w metadataFile = (m, None)"
    and "buildEnv w m d = ((Some env, None), calls)"
    and "SetUp w env = None"
  shows "fst (Run w d)
           = calls @ EnvSetUp env #
             fst (deferred (tearDownDeferred w env) (Run_after_defer w d m env))"
    and "snd (Run w d) = snd (Run_after_defer w d m env)"
  using assms by (simp_all add: Run_def fst_emit snd_emit snd_deferred)

text \<open>Every other run ends before the \<open>defer\<close> statement, and has no teardown.\<close>

lemma Run_reaches_defer:
  "filter isTearDown (fst (Run w d)) = []
   \<or> (\<exists>metadataFile m env calls.
        bazel_Runfile w (metadataFileFlag w) = (metadataFile, None)
      \<and> metadata_FromFile w metadataFile = (m, None)
      \<and> buildEnv w m d = ((Some env, None), calls)
      \<and> SetUp w env = None)"
proof -
  obtain metadataFile e1 where rf: "bazel_Runfile w (metadataFileFlag w) = (metadataFile, e1)"
    by force
  obtain m e2 where ff: "metadata_FromFile w metadataFile = (m, e2)" by force
  obtain env e3 calls where be: "buildEnv w m d = ((env, e3), calls)"
    by (metis surj_pair)
  have nc: "filter isTearDown calls = []"
    using buildEnv_calls [of w m d] be by auto
  from rf ff be nc show ?thesis
    by (auto simp: Run_def emit_def split: option.splits)
qed

text \<open>The seven ways the part after the \<open>defer\<close> statement can go.\<close>

lemma after_defer_shapes:
  "(\<exists>f args. Run_after_defer w d m env = ([LogPrintf f args], Returned 127))
   \<or> (\<exists>p f args. Run_after_defer w d m env = ([ProxyStart p, LogPrintf f args], Returned 127))
   \<or> (\<exists>p f args. Run_after_defer w d m env = ([ProxyStart p, LogPrintf f args], Returned (- 1)))
   \<or> (\<exists>p f args. Run_after_defer w d m env = ([ProxyStart p, LogPrintf f args], Returned 1))
   \<or> (\<exists>p c. Run_after_defer w d m env = ([ProxyStart p, ChildStarted c], Blocked))
   \<or> (\<exists>p c. Run_after_defer w d m env
          = ([ProxyStart p, ChildStarted c, ChildTerminated], Returned 0))
   \<or> (\<exists>p c f args. Run_after_defer w d m env
          = ([ProxyStart p, ChildStarted c, ChildTerminated, LogPrintf f args], Returned 1))"
proof -
  obtain p perr where pn: "proxy_New w env m d = (p, perr)" by force
  obtain testExe rerr where rf: "bazel_Runfile w (test w) = (testExe, rerr)" by force
  obtain tmpDir terr where td: "bazel_NewTmpDir w ''test'' = (tmpDir, terr)" by force
  show ?thesis
  proof (cases "exec_child w (newTestCmd w p testExe tmpDir)")
    case (StartFails e)
    with pn rf td show ?thesis
      by (simp add: Run_after_defer_def emit_def exitStatusOf_def split: option.splits)
  next
    case (Exits k)
    with pn rf td show ?thesis
      by (simp add: Run_after_defer_def emit_def exitStatusOf_def split: option.splits)
  next
    case Killed
    with pn rf td show ?thesis
      by (simp add: Run_after_defer_def emit_def exitStatusOf_def split: option.splits)
  next
    case Hangs
    with pn rf td show ?thesis
      by (simp add: Run_after_defer_def emit_def exitStatusOf_def split: option.splits)
  qed
qed

lemma after_defer_no_TearDown: "filter isTearDown (fst (Run_after_defer w d m env)) = []"
  using after_defer_shapes [of w d m env]
  by (elim disjE exE) simp_all

lemma after_defer_not_Panicked: "snd (Run_after_defer w d m env) \<noteq> Panicked"
  using after_defer_shapes [of w d m env]
  by (elim disjE exE) simp_all

lemma after_defer_child_order:
  assumes "fst (Run_after_defer w d m env) = a @ ChildStarted c # b"
    and "snd (Run_after_defer w d m env) \<noteq> Blocked"
  shows "ChildTerminated \<in> set b"
  using after_defer_shapes [of w d m env] assms
  by (elim disjE exE) (simp_all add: Cons_eq_append_conv, auto)

lemma after_defer_fatal_logged:
  assumes "filter isChildStarted (fst (Run_after_defer w d m env)) = []"
    and "snd (Run_after_defer w d m env) \<noteq> Blocked"
  shows "fst (Run_after_defer w d m env) \<noteq> []
         \<and> isLogPrintf (last (fst (Run_after_defer w d m env)))"
  using after_defer_shapes [of w d m env] assms
  by (elim disjE exE) simp_all

lemma after_defer_TearDown_irrelevant:
  "Run_after_defer (w\<lparr>TearDown := t\<rparr>) d m env = Run_after_defer w d m env"
  by (simp add: Run_after_defer_def newTestCmd_def cong: prod.case_cong option.case_cong)

text \<open>With the proxy started and the temporary directory made, the child decides.\<close>

lemma after_defer_proxy_up:
  assumes "proxy_New w env m d = (p, None)"
    and "Start w p = None"
    and "bazel_Runfile w (test w) = (testExe, None)"
    and "bazel_NewTmpDir w ''test'' = (tmpDir, None)"
  shows "Run_after_defer w d m env =
     (case Cmd_Run (newTestCmd w p testExe tmpDir)
             (exec_child w (newTestCmd w p testExe tmpDir)) of
        (evs, NeverReturns) \<Rightarrow> (ProxyStart p # evs, Blocked)
      | (evs, Returns status) \<Rightarrow>
     (case status of
        Some s \<Rightarrow>
          (ProxyStart p # evs @ [LogPrintf ''test failed %v'' [ArgError s]],
           Returned (exitStatusOf None))
      | None \<Rightarrow> (ProxyStart p # evs, Returned 0)))"
  using assms
  by (simp add: Run_after_defer_def emit_def split: prod.splits blocking.splits option.splits)

subsection \<open>Splitting a list of events\<close>

lemma split_at_TearDown:
  assumes "xs @ EnvTearDown e # ys = pre @ EnvTearDown env # post"
    and "filter isTearDown xs = []" and "filter isTearDown ys = []"
  shows "pre = xs \<and> env = e \<and> post = ys"
  using assms
proof (induction xs arbitrary: pre)
  case Nil
  then show ?case
    by (cases pre) (auto simp: filter_empty_conv)
next
  case (Cons x xs)
  show ?case
  proof (cases pre)
    case Nil
    with Cons.prems show ?thesis by (auto simp: filter_empty_conv)
  next
    case (Cons z pre')
    with Cons.prems Cons.IH [of pre'] show ?thesis
      by (auto split: if_splits)
  qed
qed

lemma append_split_right:
  assumes "xs @ ys = a @ x # b" and "x \<notin> set xs"
  shows "\<exists>a'. a = xs @ a' \<and> ys = a' @ x # b"
  using assms
proof (induction xs arbitrary: a)
  case Nil
  then show ?case by simp
next
  case (Cons z xs)
  then show ?case by (cases a) auto
qed

subsection \<open>The example worlds\<close>

lemma localWorld_fields:
  "test (localWorld ch) = ''pkg/some_test''"
  "metadataFileFlag (localWorld ch) = ''pkg/some_test.gen.json''"
  "envProviders (localWorld ch) = [''local'' \<mapsto> localProvider]"
  "bazel_Runfile (localWorld ch) f = (''/runfiles/'' @ f, None)"
  "metadata_FromFile (localWorld ch) f = (\<lparr>Environment = ''local''\<rparr>, None)"
  "SetUp (localWorld ch) e = None"
  "TearDown (localWorld ch) e = None"
  "proxy_New (localWorld ch) e m d = (\<lparr>Address = ''127.0.0.1:9999''\<rparr>, None)"
  "Start (localWorld ch) p = None"
  "bazel_NewTmpDir (localWorld ch) prefix = (''/tmp/test0'', None)"
  "bazel_TestTmpDir (localWorld ch) = ''/tmp/harness''"
  "os_Environ (localWorld ch) = [''HOME'' \<mapsto> ''/root'', ''TEST_TMPDIR'' \<mapsto> ''/tmp/harness'']"
  "exec_child (localWorld ch) c = ch"
  by (simp_all add: localWorld_def emptyWorld_def RegisterEnvProviderFunc_def)

lemma localWorld_buildEnv:
  "buildEnv (localWorld ch) \<lparr>Environment = ''local''\<rparr> d
     = ((Some (EnvObject ''local''), None), [CallProvider localProvider])"
  by (simp add: buildEnv_def localWorld_fields localProvider_def)

text \<open>The run of the example world whose child exits with code k.\<close>

lemma localWorld_Run_Exits:
  "fst (Run (localWorld (Exits k)) NoOP)
     = [CallProvider localProvider, EnvSetUp (EnvObject ''local''),
        ProxyStart \<lparr>Address = ''127.0.0.1:9999''\<rparr>,
        ChildStarted (newTestCmd (localWorld (Exits k)) \<lparr>Address = ''127.0.0.1:9999''\<rparr>
                        ''/runfiles/pkg/some_test'' ''/tmp/test0''),
        ChildTerminated]
       @ (if k = 0 then []
          else [LogPrintf ''test failed %v'' [ArgError (ExitError (WaitStatus (int k)))]])
       @ [EnvTearDown (EnvObject ''local'')]"
  "snd (Run (localWorld (Exits k)) NoOP) = Returned (if k = 0 then 0 else 1)"
proof -
  let ?w = "localWorld (Exits k)"
  have up: "bazel_Runfile ?w (metadataFileFlag ?w) = (''/runfiles/pkg/some_test.gen.json'', None)"
    "metadata_FromFile ?w ''/runfiles/pkg/some_test.gen.json''
       = (\<lparr>Environment = ''local''\<rparr>, None)"
    "buildEnv ?w \<lparr>Environment = ''local''\<rparr> NoOP
       = ((Some (EnvObject ''local''), None), [CallProvider localProvider])"
    "SetUp ?w (EnvObject ''local'') = None"
    by (simp_all add: localWorld_fields localWorld_buildEnv)
  have rest: "Run_after_defer ?w NoOP \<lparr>Environment = ''local''\<rparr> (EnvObject ''local'')
     = ([ProxyStart \<lparr>Address = ''127.0.0.1:9999''\<rparr>,
         ChildStarted (newTestCmd ?w \<lparr>Address = ''127.0.0.1:9999''\<rparr>
                        ''/runfiles/pkg/some_test'' ''/tmp/test0''),
         ChildTerminated]
        @ (if k = 0 then []
           else [LogPrintf ''test failed %v'' [ArgError (ExitError (WaitStatus (int k)))]]),
        Returned (if k = 0 then 0 else 1))"
    using after_defer_proxy_up [of ?w "EnvObject ''local''"
        "\<lparr>Environment = ''local''\<rparr>" NoOP "\<lparr>Address = ''127.0.0.1:9999''\<rparr>"
        "''/runfiles/pkg/some_test''" "''/tmp/test0''"]
    by (simp add: localWorld_fields exitStatusOf_def)
  show "fst (Run ?w NoOP)
     = [CallProvider localProvider, EnvSetUp (EnvObject ''local''),
        ProxyStart \<lparr>Address = ''127.0.0.1:9999''\<rparr>,
        ChildStarted (newTestCmd ?w \<lparr>Address = ''127.0.0.1:9999''\<rparr>
                        ''/runfiles/pkg/some_test'' ''/tmp/test0''),
        ChildTerminated]
       @ (if k = 0 then []
          else [LogPrintf ''test failed %v'' [ArgError (ExitError (WaitStatus (int k)))]])
       @ [EnvTearDown (EnvObject ''local'')]"
    using Run_env_up(1) [OF up] rest
    by (simp add: fst_deferred tearDownDeferred_def localWorld_fields)
  show "snd (Run ?w NoOP) = Returned (if k = 0 then 0 else 1)"
    using Run_env_up(2) [OF up] rest by simp
qed

section \<open>The claims about \<open>Run\<close>\<close>

text \<open>
  C1. A child that exits with code K should make \<open>Run\<close> return K. The code does so for
  K = 0 only: with everything before the child succeeding and the child exiting with
  code 3, \<open>Run\<close> returns 1, not 3.
\<close>

theorem Run_child_exit_3:
  "snd (Run (localWorld (Exits 3)) NoOP) = Returned 1
   \<and> snd (Run (localWorld (Exits 3)) NoOP) \<noteq> Returned 3
   \<and> snd (Run (localWorld (Exits 0)) NoOP) = Returned 0"
  using localWorld_Run_Exits(2) [of 3] localWorld_Run_Exits(2) [of 0]
  by simp

text \<open>
  C2. When running the child command returns a non-nil error, the status is extracted
  from the variable \<open>err\<close>, which holds the nil error of the temp-dir creation, and not
  from the error the command returned: \<open>Run\<close> returns the generic failure code 1.
\<close>

theorem Run_child_failed:
  assumes "bazel_Runfile w (metadataFileFlag w) = (metadataFile, None)"
    and "metadata_FromFile w metadataFile = (m, None)"
    and "buildEnv w m d = ((Some env, None), calls)"
    and "SetUp w env = None"
    and "proxy_New w env m d = (p, None)"
    and "Start w p = None"
    and "bazel_Runfile w (test w) = (testExe, None)"
    and "bazel_NewTmpDir w ''test'' = (tmpDir, None)"
    and "Cmd_Run (newTestCmd w p testExe tmpDir)
           (exec_child w (newTestCmd w p testExe tmpDir)) = (evs, Returns (Some status))"
  shows "snd (Run w d) = Returned (exitStatusOf (snd (bazel_NewTmpDir w ''test'')))
     \<and> snd (Run w d) = Returned 1"
proof -
  have "snd (Run w d) = snd (Run_after_defer w d m env)"
    using assms(1-4) by (rule Run_env_up(2))
  also have "\<dots> = Returned (exitStatusOf None)"
    using after_defer_proxy_up [OF assms(5-8)] assms(9) by simp
  finally show ?thesis
    using assms(8) by (simp add: exitStatusOf_def)
qed

theorem Run_child_failed_witness:
  "Cmd_Run (newTestCmd (localWorld (Exits 3)) \<lparr>Address = ''127.0.0.1:9999''\<rparr>
              ''/runfiles/pkg/some_test'' ''/tmp/test0'')
     (exec_child (localWorld (Exits 3))
        (newTestCmd (localWorld (Exits 3)) \<lparr>Address = ''127.0.0.1:9999''\<rparr>
           ''/runfiles/pkg/some_test'' ''/tmp/test0''))
     = ([ChildStarted (newTestCmd (localWorld (Exits 3)) \<lparr>Address = ''127.0.0.1:9999''\<rparr>
           ''/runfiles/pkg/some_test'' ''/tmp/test0''), ChildTerminated],
        Returns (Some (ExitError (WaitStatus 3))))
   \<and> exitStatusOf (Some (ExitError (WaitStatus 3))) = 3
   \<and> snd (bazel_NewTmpDir (localWorld (Exits 3)) ''test'') = None
   \<and> snd (Run (localWorld (Exits 3)) NoOP) = Returned 1"
proof -
  let ?w = "localWorld (Exits 3)"
  let ?c = "newTestCmd ?w \<lparr>Address = ''127.0.0.1:9999''\<rparr> ''/runfiles/pkg/some_test''
              ''/tmp/test0''"
  have h1: "bazel_Runfile ?w (metadataFileFlag ?w) = (''/runfiles/pkg/some_test.gen.json'', None)"
    by (simp add: localWorld_fields)
  have h2: "metadata_FromFile ?w ''/runfiles/pkg/some_test.gen.json''
              = (\<lparr>Environment = ''local''\<rparr>, None)"
    by (simp add: localWorld_fields)
  have h3: "buildEnv ?w \<lparr>Environment = ''local''\<rparr> NoOP
              = ((Some (EnvObject ''local''), None), [CallProvider localProvider])"
    by (rule localWorld_buildEnv)
  have h4: "SetUp ?w (EnvObject ''local'') = None"
    by (simp add: localWorld_fields)
  have h5: "proxy_New ?w (EnvObject ''local'') \<lparr>Environment = ''local''\<rparr> NoOP
              = (\<lparr>Address = ''127.0.0.1:9999''\<rparr>, None)"
    by (simp add: localWorld_fields)
  have h6: "Start ?w \<lparr>Address = ''127.0.0.1:9999''\<rparr> = None"
    by (simp add: localWorld_fields)
  have h7: "bazel_Runfile ?w (test ?w) = (''/runfiles/pkg/some_test'', None)"
    by (simp add: localWorld_fields)
  have h8: "bazel_NewTmpDir ?w ''test'' = (''/tmp/test0'', None)"
    by (simp add: localWorld_fields)
  have h9: "Cmd_Run ?c (exec_child ?w ?c)
              = ([ChildStarted ?c, ChildTerminated], Returns (Some (ExitError (WaitStatus 3))))"
    by (simp add: localWorld_fields)
  from Run_child_failed [OF h1 h2 h3 h4 h5 h6 h7 h8 h9] h8 h9 show ?thesis
    by (simp add: exitStatusOf_def)
qed

text \<open>
  C3. Once \<open>SetUp\<close> has returned nil, every run that returns has called \<open>TearDown\<close>
  exactly once, on that environment, whichever step ended it; no such run panics; and
  the value \<open>Run\<close> returns does not depend on what \<open>TearDown\<close> returns.
\<close>

theorem Run_TearDown_once:
  assumes "bazel_Runfile w (metadataFileFlag w) = (metadataFile, None)"
    and "metadata_FromFile w metadataFile = (m, None)"
    and "buildEnv w m d = ((Some env, None), calls)"
    and "SetUp w env = None"
  shows "snd (Run w d) \<noteq> Panicked
     \<and> (snd (Run w d) \<noteq> Blocked \<longrightarrow> filter isTearDown (fst (Run w d)) = [EnvTearDown env])
     \<and> snd (Run (w\<lparr>TearDown := t\<rparr>) d) = snd (Run w d)"
proof -
  have out: "snd (Run w d) = snd (Run_after_defer w d m env)"
    using assms by (rule Run_env_up(2))
  have tr: "fst (Run w d) = calls @ EnvSetUp env #
      fst (deferred (tearDownDeferred w env) (Run_after_defer w d m env))"
    using assms by (rule Run_env_up(1))
  have calls: "filter isTearDown calls = []"
    using buildEnv_calls [of w m d] assms(3) by auto
  have 1: "snd (Run w d) \<noteq> Panicked"
    using out after_defer_not_Panicked [of w d m env] by simp
  have 2: "filter isTearDown (fst (Run w d)) = [EnvTearDown env]" if "snd (Run w d) \<noteq> Blocked"
    using that out tr calls after_defer_no_TearDown [of w d m env]
    by (simp add: fst_deferred tearDownDeferred_def split: option.splits)
  have "snd (Run (w\<lparr>TearDown := t\<rparr>) d) = snd (Run_after_defer (w\<lparr>TearDown := t\<rparr>) d m env)"
    using assms
    by (intro Run_env_up(2) [where metadataFile = metadataFile and calls = calls])
      (simp_all add: buildEnv_TearDown)
  then have 3: "snd (Run (w\<lparr>TearDown := t\<rparr>) d) = snd (Run w d)"
    using out by (simp add: after_defer_TearDown_irrelevant)
  from 1 2 3 show ?thesis by blast
qed

theorem Run_TearDown_once_witness:
  "SetUp proxyDownWorld (EnvObject ''local'') = None
   \<and> TearDown proxyDownWorld (EnvObject ''local'') = Some (ErrorString ''browser still running'')
   \<and> snd (Run proxyDownWorld NoOP) = Returned 127
   \<and> filter isTearDown (fst (Run proxyDownWorld NoOP)) = [EnvTearDown (EnvObject ''local'')]
   \<and> snd (Run (proxyDownWorld\<lparr>TearDown := (\<lambda>e. None)\<rparr>) NoOP) = Returned 127"
proof -
  let ?w = proxyDownWorld
  have h1: "bazel_Runfile ?w (metadataFileFlag ?w) = (''/runfiles/pkg/some_test.gen.json'', None)"
    by (simp add: proxyDownWorld_def localWorld_fields)
  have h2: "metadata_FromFile ?w ''/runfiles/pkg/some_test.gen.json''
              = (\<lparr>Environment = ''local''\<rparr>, None)"
    by (simp add: proxyDownWorld_def localWorld_fields)
  have h3: "buildEnv ?w \<lparr>Environment = ''local''\<rparr> NoOP
              = ((Some (EnvObject ''local''), None), [CallProvider localProvider])"
    by (simp add: buildEnv_def proxyDownWorld_def localWorld_fields localProvider_def)
  have h4: "SetUp ?w (EnvObject ''local'') = None"
    by (simp add: proxyDownWorld_def localWorld_fields)
  have td: "TearDown ?w (EnvObject ''local'') = Some (ErrorString ''browser still running'')"
    by (simp add: proxyDownWorld_def)
  have "Run_after_defer ?w NoOP \<lparr>Environment = ''local''\<rparr> (EnvObject ''local'')
          = ([ProxyStart \<lparr>Address = ''127.0.0.1:9999''\<rparr>,
              LogPrintf ''Error starting proxy: %v''
                [ArgError (ErrorString ''address already in use'')]],
             Returned 127)"
    by (simp add: Run_after_defer_def emit_def proxyDownWorld_def localWorld_fields)
  with Run_env_up(2) [OF h1 h2 h3 h4] have out: "snd (Run ?w NoOP) = Returned 127"
    by simp
  from Run_TearDown_once [OF h1 h2 h3 h4, of "\<lambda>e. None"] out h4 td show ?thesis
    by simp
qed

text \<open>
  C4. A run that fails before the environment is up (the metadata file is not found,
  the metadata cannot be read, the environment name is not registered, or \<open>SetUp\<close>
  returns an error) returns 127 and never calls \<open>TearDown\<close>.
\<close>

theorem Run_fails_before_env_up:
  assumes "snd (bazel_Runfile w (metadataFileFlag w)) \<noteq> None
     \<or> snd (metadata_FromFile w (fst (bazel_Runfile w (metadataFileFlag w)))) \<noteq> None
     \<or> Environment (fst (metadata_FromFile w (fst (bazel_Runfile w (metadataFileFlag w)))))
           \<notin> dom (envProviders w)
     \<or> (\<exists>env. fst (fst (buildEnv w
                  (fst (metadata_FromFile w (fst (bazel_Runfile w (metadataFileFlag w))))) d))
                = Some env
              \<and> SetUp w env \<noteq> None)"
  shows "snd (Run w d) = Returned 127 \<and> filter isTearDown (fst (Run w d)) = []"
proof -
  obtain metadataFile e1 where rf: "bazel_Runfile w (metadataFileFlag w) = (metadataFile, e1)"
    by force
  obtain m e2 where ff: "metadata_FromFile w metadataFile = (m, e2)" by force
  obtain env e3 calls where be: "buildEnv w m d = ((env, e3), calls)"
    by (metis surj_pair)
  have nc: "filter isTearDown calls = []"
    using buildEnv_calls [of w m d] be by auto
  have unk: "Environment m \<notin> dom (envProviders w) \<Longrightarrow> e3 \<noteq> None"
    using be by (auto simp: buildEnv_def domIff)
  from assms rf ff be nc unk show ?thesis
    by (auto simp: Run_def emit_def split: option.splits)
qed

theorem Run_fails_before_env_up_witness:
  "fst (fst (buildEnv setUpFailsWorld
       (fst (metadata_FromFile setUpFailsWorld
          (fst (bazel_Runfile setUpFailsWorld (metadataFileFlag setUpFailsWorld))))) NoOP))
     = Some (EnvObject ''local'')
   \<and> SetUp setUpFailsWorld (EnvObject ''local'') = Some (ErrorString ''no display'')
   \<and> snd (Run setUpFailsWorld NoOP) = Returned 127
   \<and> filter isTearDown (fst (Run setUpFailsWorld NoOP)) = []"
proof -
  let ?w = setUpFailsWorld
  have b: "fst (fst (buildEnv ?w
       (fst (metadata_FromFile ?w (fst (bazel_Runfile ?w (metadataFileFlag ?w))))) NoOP))
     = Some (EnvObject ''local'')"
    by (simp add: buildEnv_def setUpFailsWorld_def localWorld_fields localProvider_def)
  have s: "SetUp ?w (EnvObject ''local'') = Some (ErrorString ''no display'')"
    by (simp add: setUpFailsWorld_def)
  from b s have "\<exists>env. fst (fst (buildEnv ?w
       (fst (metadata_FromFile ?w (fst (bazel_Runfile ?w (metadataFileFlag ?w))))) NoOP))
     = Some env \<and> SetUp ?w env \<noteq> None"
    by simp
  then have "snd (Run ?w NoOP) = Returned 127 \<and> filter isTearDown (fst (Run ?w NoOP)) = []"
    by (intro Run_fails_before_env_up) blast
  with b s show ?thesis by simp
qed

text \<open>
  C8. In a run that reaches the child, the command that is started has the launcher's
  own environment variables with the overlay merged over them: the four keys
  WEB_TEST_WEBDRIVER_SERVER (http://<proxy address>/wd/hub), TEST_TMPDIR (the new
  temporary directory), WEB_TEST_TMPDIR (the harness's directory) and WEB_TEST_TARGET
  (the test flag) have the overlay's values, whatever was inherited, and every other
  key has its inherited value.
\<close>

theorem child_environment:
  assumes "bazel_Runfile w (metadataFileFlag w) = (metadataFile, None)"
    and "metadata_FromFile w metadataFile = (m, None)"
    and "buildEnv w m d = ((Some env, None), calls)"
    and "SetUp w env = None"
    and "proxy_New w env m d = (p, None)"
    and "Start w p = None"
    and "bazel_Runfile w (test w) = (testExe, None)"
    and "bazel_NewTmpDir w ''test'' = (tmpDir, None)"
    and "ChildStarted c \<in> set (fst (Run w d))"
  shows "Env c = BulkUpdateEnv (os_Environ w)
           [''WEB_TEST_WEBDRIVER_SERVER'' \<mapsto> ''http://'' @ Address p @ ''/wd/hub'',
            ''TEST_TMPDIR'' \<mapsto> tmpDir,
            ''WEB_TEST_TMPDIR'' \<mapsto> bazel_TestTmpDir w,
            ''WEB_TEST_TARGET'' \<mapsto> test w]
     \<and> Env c ''WEB_TEST_WEBDRIVER_SERVER'' = Some (''http://'' @ Address p @ ''/wd/hub'')
     \<and> Env c ''TEST_TMPDIR'' = Some tmpDir
     \<and> Env c ''WEB_TEST_TMPDIR'' = Some (bazel_TestTmpDir w)
     \<and> Env c ''WEB_TEST_TARGET'' = Some (test w)
     \<and> (\<forall>k. k \<notin> {''WEB_TEST_WEBDRIVER_SERVER'', ''TEST_TMPDIR'', ''WEB_TEST_TMPDIR'',
                    ''WEB_TEST_TARGET''} \<longrightarrow> Env c k = os_Environ w k)"
proof -
  let ?c = "newTestCmd w p testExe tmpDir"
  have calls: "ChildStarted c \<notin> set calls"
    using buildEnv_calls [of w m d] assms(3) by auto
  have started: "ChildStarted c \<in> set (fst (Cmd_Run c' ch)) \<Longrightarrow> c = c'" for c' ch
    by (cases ch) auto
  obtain evs r where r: "Cmd_Run ?c (exec_child w ?c) = (evs, r)" by force
  have "ChildStarted c \<in> set (fst (Run_after_defer w d m env))"
    using Run_env_up(1) [OF assms(1-4)] assms(9) calls
    by (auto simp: fst_deferred tearDownDeferred_def split: if_splits option.splits)
  then have "ChildStarted c \<in> set evs"
    using after_defer_proxy_up [OF assms(5-8)] r
    by (auto split: blocking.splits option.splits)
  with started [of ?c "exec_child w ?c"] r have c: "c = ?c"
    by simp
  show ?thesis
    unfolding c by (simp add: newTestCmd_def BulkUpdateEnv_def map_add_def)
qed

theorem child_environment_witness:
  "ChildStarted (newTestCmd (localWorld (Exits 0)) \<lparr>Address = ''127.0.0.1:9999''\<rparr>
                   ''/runfiles/pkg/some_test'' ''/tmp/test0'')
     \<in> set (fst (Run (localWorld (Exits 0)) NoOP))
   \<and> os_Environ (localWorld (Exits 0)) ''TEST_TMPDIR'' = Some ''/tmp/harness''
   \<and> Env (newTestCmd (localWorld (Exits 0)) \<lparr>Address = ''127.0.0.1:9999''\<rparr>
             ''/runfiles/pkg/some_test'' ''/tmp/test0'') ''TEST_TMPDIR'' = Some ''/tmp/test0''
   \<and> Env (newTestCmd (localWorld (Exits 0)) \<lparr>Address = ''127.0.0.1:9999''\<rparr>
             ''/runfiles/pkg/some_test'' ''/tmp/test0'') ''WEB_TEST_WEBDRIVER_SERVER''
       = Some ''http://127.0.0.1:9999/wd/hub''
   \<and> Env (newTestCmd (localWorld (Exits 0)) \<lparr>Address = ''127.0.0.1:9999''\<rparr>
             ''/runfiles/pkg/some_test'' ''/tmp/test0'') ''HOME'' = Some ''/root''"
proof -
  let ?w = "localWorld (Exits 0)"
  let ?c = "newTestCmd ?w \<lparr>Address = ''127.0.0.1:9999''\<rparr> ''/runfiles/pkg/some_test''
              ''/tmp/test0''"
  have h1: "bazel_Runfile ?w (metadataFileFlag ?w) = (''/runfiles/pkg/some_test.gen.json'', None)"
    by (simp add: localWorld_fields)
  have h2: "metadata_FromFile ?w ''/runfiles/pkg/some_test.gen.json''
              = (\<lparr>Environment = ''local''\<rparr>, None)"
    by (simp add: localWorld_fields)
  have h3: "buildEnv ?w \<lparr>Environment = ''local''\<rparr> NoOP
              = ((Some (EnvObject ''local''), None), [CallProvider localProvider])"
    by (rule localWorld_buildEnv)
  have h4: "SetUp ?w (EnvObject ''local'') = None"
    by (simp add: localWorld_fields)
  have h5: "proxy_New ?w (EnvObject ''local'') \<lparr>Environment = ''local''\<rparr> NoOP
              = (\<lparr>Address = ''127.0.0.1:9999''\<rparr>, None)"
    by (simp add: localWorld_fields)
  have h6: "Start ?w \<lparr>Address = ''127.0.0.1:9999''\<rparr> = None"
    by (simp add: localWorld_fields)
  have h7: "bazel_Runfile ?w (test ?w) = (''/runfiles/pkg/some_test'', None)"
    by (simp add: localWorld_fields)
  have h8: "bazel_NewTmpDir ?w ''test'' = (''/tmp/test0'', None)"
    by (simp add: localWorld_fields)
  have h9: "ChildStarted ?c \<in> set (fst (Run ?w NoOP))"
    by (simp add: localWorld_Run_Exits(1))
  have inh: "os_Environ ?w ''TEST_TMPDIR'' = Some ''/tmp/harness''"
    "os_Environ ?w ''HOME'' = Some ''/root''"
    by (simp_all add: localWorld_fields)
  from child_environment [OF h1 h2 h3 h4 h5 h6 h7 h8 h9, THEN conjunct2] h9 inh show ?thesis
    by simp
qed

text \<open>
  C9. \<open>TearDown\<close> is never called before the child has terminated. Wherever a
  \<open>TearDown\<close> event stands in the events of a run: no child is started or terminates
  after it; every child started before it has terminated before it; and if no child was
  started before it, the event just before it is the log line of the error that ended
  the run.
\<close>

theorem TearDown_after_child:
  assumes "fst (Run w d) = pre @ EnvTearDown env # post"
  shows "filter isChildStarted post = [] \<and> ChildTerminated \<notin> set post
    \<and> (\<forall>a c b. pre = a @ ChildStarted c # b \<longrightarrow> ChildTerminated \<in> set b)
    \<and> (filter isChildStarted pre = [] \<longrightarrow> pre \<noteq> [] \<and> isLogPrintf (last pre))"
proof -
  have "filter isTearDown (fst (Run w d)) \<noteq> []"
    using assms by simp
  with Run_reaches_defer [of w d] obtain metadataFile m env0 calls where
    up: "bazel_Runfile w (metadataFileFlag w) = (metadataFile, None)"
      "metadata_FromFile w metadataFile = (m, None)"
      "buildEnv w m d = ((Some env0, None), calls)"
      "SetUp w env0 = None"
    by blast
  let ?rest = "Run_after_defer w d m env0"
  have calls: "calls = [] \<or> (\<exists>p. calls = [CallProvider p])"
    using buildEnv_calls [of w m d] up(3) by simp
  have tr: "fst (Run w d) = calls @ EnvSetUp env0 # fst (deferred (tearDownDeferred w env0) ?rest)"
    using Run_env_up(1) [OF up] .
  have nb: "snd ?rest \<noteq> Blocked"
  proof
    assume "snd ?rest = Blocked"
    with tr calls after_defer_no_TearDown [of w d m env0]
    have "filter isTearDown (fst (Run w d)) = []"
      by (auto simp: fst_deferred)
    with assms show False by simp
  qed
  let ?xs = "calls @ EnvSetUp env0 # fst ?rest"
  let ?ys = "case TearDown w env0 of
        Some e \<Rightarrow> [LogPrintf ''Error tearing down environment: %v'' [ArgError e]]
      | None \<Rightarrow> []"
  have tr': "?xs @ EnvTearDown env0 # ?ys = pre @ EnvTearDown env # post"
    using tr nb assms by (simp add: fst_deferred tearDownDeferred_def)
  have "filter isTearDown ?xs = []"
    using calls after_defer_no_TearDown [of w d m env0] by auto
  moreover have "filter isTearDown ?ys = []"
    by (simp split: option.splits)
  ultimately have eq: "pre = ?xs \<and> env = env0 \<and> post = ?ys"
    using split_at_TearDown [OF tr'] by simp
  have post: "filter isChildStarted post = [] \<and> ChildTerminated \<notin> set post"
    using eq by (simp split: option.splits)
  have order: "ChildTerminated \<in> set b" if "pre = a @ ChildStarted c # b" for a c b
  proof -
    have 1: "(calls @ [EnvSetUp env0]) @ fst ?rest = a @ ChildStarted c # b"
      using eq that by simp
    have 2: "ChildStarted c \<notin> set (calls @ [EnvSetUp env0])"
      using calls by auto
    from append_split_right [OF 1 2] obtain a' where
      "fst ?rest = a' @ ChildStarted c # b" by (elim exE conjE)
    from after_defer_child_order [OF this nb] show ?thesis .
  qed
  have logged: "pre \<noteq> [] \<and> isLogPrintf (last pre)" if "filter isChildStarted pre = []"
  proof -
    have "filter isChildStarted (fst ?rest) = []"
      using eq that by simp
    from after_defer_fatal_logged [OF this nb] eq show ?thesis by simp
  qed
  from post order logged show ?thesis by blast
qed

theorem TearDown_after_child_witness:
  "fst (Run (localWorld (Exits 3)) NoOP)
     = [CallProvider localProvider, EnvSetUp (EnvObject ''local''),
        ProxyStart \<lparr>Address = ''127.0.0.1:9999''\<rparr>,
        ChildStarted (newTestCmd (localWorld (Exits 3)) \<lparr>Address = ''127.0.0.1:9999''\<rparr>
                        ''/runfiles/pkg/some_test'' ''/tmp/test0''),
        ChildTerminated,
        LogPrintf ''test failed %v'' [ArgError (ExitError (WaitStatus 3))]]
       @ EnvTearDown (EnvObject ''local'') # []
   \<and> ChildTerminated
       \<in> set [ChildTerminated, LogPrintf ''test failed %v'' [ArgError (ExitError (WaitStatus 3))]]"
proof -
  let ?c = "newTestCmd (localWorld (Exits 3)) \<lparr>Address = ''127.0.0.1:9999''\<rparr>
              ''/runfiles/pkg/some_test'' ''/tmp/test0''"
  let ?a = "[CallProvider localProvider, EnvSetUp (EnvObject ''local''),
             ProxyStart \<lparr>Address = ''127.0.0.1:9999''\<rparr>]"
  let ?b = "[ChildTerminated, LogPrintf ''test failed %v'' [ArgError (ExitError (WaitStatus 3))]]"
  have h: "fst (Run (localWorld (Exits 3)) NoOP)
             = (?a @ ChildStarted ?c # ?b) @ EnvTearDown (EnvObject ''local'') # []"
    by (simp add: localWorld_Run_Exits(1))
  from TearDown_after_child [OF h]
  have "\<forall>a c b. ?a @ ChildStarted ?c # ?b = a @ ChildStarted c # b \<longrightarrow> ChildTerminated \<in> set b"
    by (elim conjE)
  then have "ChildTerminated \<in> set ?b" by blast
  with h show ?thesis by simp
qed

text \<open>
  C10. When the temporary directory cannot be created (everything before it having
  succeeded), \<open>Run\<close> returns -1, which is none of 0, 1, 127 or an exit code between 0
  and 255; no child is started; and the deferred \<open>TearDown\<close> is still called, once.
\<close>

theorem Run_tmpdir_failure:
  assumes "bazel_Runfile w (metadataFileFlag w) = (metadataFile, None)"
    and "metadata_FromFile w metadataFile = (m, None)"
    and "buildEnv w m d = ((Some env, None), calls)"
    and "SetUp w env = None"
    and "proxy_New w env m d = (p, None)"
    and "Start w p = None"
    and "bazel_Runfile w (test w) = (testExe, None)"
    and "bazel_NewTmpDir w ''test'' = (tmpDir, Some e)"
  shows "snd (Run w d) = Returned (- 1)
     \<and> (\<forall>k \<in> {0, 1, 127} \<union> {0..255}. snd (Run w d) \<noteq> Returned k)
     \<and> filter isChildStarted (fst (Run w d)) = []
     \<and> filter isTearDown (fst (Run w d)) = [EnvTearDown env]"
proof -
  have calls: "filter isTearDown calls = [] \<and> filter isChildStarted calls = []"
    using buildEnv_calls [of w m d] assms(3) by auto
  have rest: "Run_after_defer w d m env
      = ([ProxyStart p,
          LogPrintf ''Unable to create new temp dir for test: %v'' [ArgError e]],
         Returned (- 1))"
    using assms(5-8) by (simp add: Run_after_defer_def emit_def)
  have out: "snd (Run w d) = Returned (- 1)"
    using Run_env_up(2) [OF assms(1-4)] rest by simp
  have tr: "fst (Run w d) = calls @ [EnvSetUp env, ProxyStart p,
          LogPrintf ''Unable to create new temp dir for test: %v'' [ArgError e]]
          @ tearDownDeferred w env"
    using Run_env_up(1) [OF assms(1-4)] rest by (simp add: fst_deferred)
  from out have "\<forall>k \<in> {0, 1, 127} \<union> {0..255}. snd (Run w d) \<noteq> Returned k"
    by auto
  moreover have "filter isChildStarted (fst (Run w d)) = []"
    using tr calls by (simp add: tearDownDeferred_def split: option.splits)
  moreover have "filter isTearDown (fst (Run w d)) = [EnvTearDown env]"
    using tr calls by (simp add: tearDownDeferred_def split: option.splits)
  ultimately show ?thesis
    using out by blast
qed

theorem Run_tmpdir_failure_witness:
  "bazel_NewTmpDir noTmpDirWorld ''test'' = ([], Some (ErrorString ''no space left on device''))
   \<and> snd (Run noTmpDirWorld NoOP) = Returned (- 1)
   \<and> filter isChildStarted (fst (Run noTmpDirWorld NoOP)) = []
   \<and> filter isTearDown (fst (Run noTmpDirWorld NoOP)) = [EnvTearDown (EnvObject ''local'')]"
proof -
  let ?w = noTmpDirWorld
  have h1: "bazel_Runfile ?w (metadataFileFlag ?w) = (''/runfiles/pkg/some_test.gen.json'', None)"
    by (simp add: noTmpDirWorld_def localWorld_fields)
  have h2: "metadata_FromFile ?w ''/runfiles/pkg/some_test.gen.json''
              = (\<lparr>Environment = ''local''\<rparr>, None)"
    by (simp add: noTmpDirWorld_def localWorld_fields)
  have h3: "buildEnv ?w \<lparr>Environment = ''local''\<rparr> NoOP
              = ((Some (EnvObject ''local''), None), [CallProvider localProvider])"
    by (simp add: buildEnv_def noTmpDirWorld_def localWorld_fields localProvider_def)
  have h4: "SetUp ?w (EnvObject ''local'') = None"
    by (simp add: noTmpDirWorld_def localWorld_fields)
  have h5: "proxy_New ?w (EnvObject ''local'') \<lparr>Environment = ''local''\<rparr> NoOP
              = (\<lparr>Address = ''127.0.0.1:9999''\<rparr>, None)"
    by (simp add: noTmpDirWorld_def localWorld_fields)
  have h6: "Start ?w \<lparr>Address = ''127.0.0.1:9999''\<rparr> = None"
    by (simp add: noTmpDirWorld_def localWorld_fields)
  have h7: "bazel_Runfile ?w (test ?w) = (''/runfiles/pkg/some_test'', None)"
    by (simp add: noTmpDirWorld_def localWorld_fields)
  have h8: "bazel_NewTmpDir ?w ''test'' = ([], Some (ErrorString ''no space left on device''))"
    by (simp add: noTmpDirWorld_def)
  from Run_tmpdir_failure [OF h1 h2 h3 h4 h5 h6 h7 h8] h8 show ?thesis
    by simp
qed

end
